theory Spec2Isabelle
  imports Complex_Main "HOL-Library.Option_ord"
begin

section \<open>Numbers, rounding and the random source\<close>

text \<open>
  A JavaScript number is modelled as a real and every operation is exact; the rounding
  error of IEEE doubles is outside the model. The concrete inputs used below are chosen
  among numbers that doubles represent exactly wherever that is possible.

  \<^verbatim>\<open>Math.round(x)\<close> is the integer nearest to \<open>x\<close>, a tie going towards plus infinity.
  \<^verbatim>\<open>parseFloat(x.toFixed(1))\<close> rounds the magnitude of \<open>x\<close> to one decimal place, a tie
  going up, and restores the sign; at \<open>10^21\<close> and above \<^verbatim>\<open>toFixed\<close> prints the number
  itself.
\<close>

definition Math_round :: "real \<Rightarrow> real" where
  "Math_round x = of_int \<lfloor>x + 1 / 2\<rfloor>"

definition toFixed1 :: "real \<Rightarrow> real" where
  "toFixed1 x =
     (if \<bar>x\<bar> \<ge> 10 ^ 21 then x
      else if x < 0 then - (of_int \<lfloor>(- x) * 10 + 1 / 2\<rfloor> / 10)
      else of_int \<lfloor>x * 10 + 1 / 2\<rfloor> / 10)"

text \<open>
  \<^verbatim>\<open>Math.random()\<close> is a sequence of draws, \<open>rnd i\<close> being the \<open>i\<close>-th draw of the
  process; a function that draws takes the index of the next draw and returns the index
  after its last one. A draw lies in \<open>[0, 1)\<close>.
\<close>

type_synonym rng = "nat \<Rightarrow> real"

definition unit_draws :: "rng \<Rightarrow> bool" where
  "unit_draws rnd = (\<forall>i. 0 \<le> rnd i \<and> rnd i < 1)"

text \<open>\<^verbatim>\<open>x || d\<close> on a field that holds a number or is absent: absent and \<open>0\<close> are falsy.\<close>

definition or_default :: "real option \<Rightarrow> real \<Rightarrow> real" where
  "or_default x d = (case x of None \<Rightarrow> d | Some v \<Rightarrow> if v = 0 then d else v)"

section \<open>Bands and the bounded walk\<close>

record range =
  min_r :: real
  max_r :: real
  minChange :: real

definition mk_range :: "real \<Rightarrow> real \<Rightarrow> real \<Rightarrow> range" where
  "mk_range lo hi mc = \<lparr>min_r = lo, max_r = hi, minChange = mc\<rparr>"

text \<open>
  \<^verbatim>\<open>applyControlledVariation(currentValue, lastValue, range)\<close>, the parameter
  \<^verbatim>\<open>range\<close> being \<open>band\<close> here. The first draw picks the
  direction, the second the additional variation; the third is taken only when the
  clamped value is closer to \<open>lastValue\<close> than the minimum variation.
\<close>

definition applyControlledVariation ::
    "real \<Rightarrow> real \<Rightarrow> range \<Rightarrow> rng \<Rightarrow> nat \<Rightarrow> real \<times> nat" where
  "applyControlledVariation currentValue lastValue band rnd n =
     (let changeDirection = (if rnd n > 1 / 2 then 1 else - 1);
          minVariation = (if minChange band = 0 then 1 / 10 else minChange band);
          newValue0 = lastValue + changeDirection * minVariation;
          additionalVariation = (rnd (n + 1) - 1 / 2) * 1;
          newValue1 = newValue0 + additionalVariation;
          newValue2 = max (min_r band) (min (max_r band) newValue1)
      in if \<bar>newValue2 - lastValue\<bar> < minVariation then
           (let forcedChange = minVariation * (if rnd (n + 2) > 1 / 2 then 1 else - 1);
                newValue3 = lastValue + forcedChange
            in (max (min_r band) (min (max_r band) newValue3), n + 3))
         else (newValue2, n + 2))"

section \<open>Time-of-day bands\<close>

text \<open>The hour is \<^verbatim>\<open>new Date().getHours()\<close>, a number from 0 to 23.\<close>

definition isRestingTime :: "nat \<Rightarrow> bool" where
  "isRestingTime timeOfDay = (timeOfDay \<ge> 22 \<or> timeOfDay \<le> 6)"

definition isActiveTime :: "nat \<Rightarrow> bool" where
  "isActiveTime timeOfDay = (timeOfDay \<ge> 9 \<and> timeOfDay \<le> 18)"

definition heartRateRange :: "nat \<Rightarrow> range" where
  "heartRateRange timeOfDay =
     (if isRestingTime timeOfDay then mk_range 55 75 1
      else if isActiveTime timeOfDay then mk_range 65 90 1
      else mk_range 60 95 1)"

definition spo2Range :: range where
  "spo2Range = mk_range 95 100 (1 / 2)"

definition tempRange :: "nat \<Rightarrow> range" where
  "tempRange timeOfDay =
     (if timeOfDay \<ge> 6 \<and> timeOfDay \<le> 10 then mk_range 36 (368 / 10) (1 / 10)
      else if timeOfDay \<ge> 16 \<and> timeOfDay \<le> 20 then mk_range (365 / 10) (372 / 10) (1 / 10)
      else mk_range (361 / 10) (372 / 10) (1 / 10))"

definition redRange :: range where
  "redRange = mk_range 75000 120000 1000"

definition irRange :: range where
  "irRange = mk_range 80000 120000 1000"

definition isPostMealTime :: "nat \<Rightarrow> bool" where
  "isPostMealTime timeOfDay =
     ((timeOfDay \<ge> 8 \<and> timeOfDay \<le> 10) \<or> (timeOfDay \<ge> 12 \<and> timeOfDay \<le> 14)
      \<or> (timeOfDay \<ge> 18 \<and> timeOfDay \<le> 20))"

definition isFastingTime :: "nat \<Rightarrow> bool" where
  "isFastingTime timeOfDay = (timeOfDay \<ge> 22 \<or> timeOfDay \<le> 7)"

definition glucoseRange :: "nat \<Rightarrow> range" where
  "glucoseRange timeOfDay =
     (if isFastingTime timeOfDay then mk_range 75 95 (1 / 2)
      else if isPostMealTime timeOfDay then mk_range 80 99 (1 / 2)
      else mk_range 75 99 (1 / 2))"

section \<open>Interpretation and the health score\<close>

record interp =
  category :: string
  status :: string
  message :: string

text \<open>
  \<^verbatim>\<open>interpretGlucose\<close> of the newer server: four branches and no final \<^verbatim>\<open>else\<close>, so a
  level that matches none of them falls off the end of the function, which returns
  \<^verbatim>\<open>undefined\<close> (\<open>None\<close>).
\<close>

definition interpretGlucose :: "real \<Rightarrow> interp option" where
  "interpretGlucose glucoseLevel =
     (if glucoseLevel < 70 then
        Some \<lparr>category = ''Low (Hypoglycemia)'', status = ''warning'',
              message = ''Below normal - consult healthcare provider''\<rparr>
      else if glucoseLevel \<ge> 70 \<and> glucoseLevel \<le> 99 then
        Some \<lparr>category = ''Normal'', status = ''good'',
              message = ''Normal fasting glucose level''\<rparr>
      else if glucoseLevel \<ge> 100 \<and> glucoseLevel \<le> 125 then
        Some \<lparr>category = ''Prediabetes'', status = ''caution'',
              message = ''Prediabetic range - monitor closely''\<rparr>
      else if glucoseLevel \<ge> 126 then
        Some \<lparr>category = ''Diabetes'', status = ''warning'',
              message = ''Diabetic range - consult healthcare provider immediately''\<rparr>
      else None)"

record health_score =
  score :: int
  healthStatus :: string
  factors :: "string list"

text \<open>
  One step of the \<^verbatim>\<open>forEach\<close> over \<^verbatim>\<open>Object.entries(vitals)\<close>: the state is the score and
  the factors collected so far.
\<close>

definition deduct_vital :: "int \<times> string list \<Rightarrow> string \<times> interp \<Rightarrow> int \<times> string list" where
  "deduct_vital acc entry =
     (let (score0, factors0) = acc; (vital, itp) = entry
      in if status itp = ''warning'' then (score0 - 20, factors0 @ [vital @ '': '' @ message itp])
         else if status itp = ''caution'' then (score0 - 10, factors0 @ [vital @ '': '' @ message itp])
         else if status itp = ''error'' then (score0 - 15, factors0 @ [vital @ '': '' @ message itp])
         else (score0, factors0))"

text \<open>
  \<^verbatim>\<open>calculateHealthScore(vitals, glucose)\<close>: \<open>vitals\<close> is the list of the entries of the
  object, in order; a falsy \<open>glucose\<close> is \<open>None\<close>.
\<close>

definition calculateHealthScore ::
    "(string \<times> interp) list \<Rightarrow> interp option \<Rightarrow> health_score" where
  "calculateHealthScore vitals glucose =
     (let (score1, factors1) = foldl deduct_vital (100, []) vitals;
          (score2, factors2) =
             (case glucose of
                None \<Rightarrow> (score1, factors1)
              | Some g \<Rightarrow>
                  if status g = ''warning'' then (score1 - 15, factors1 @ [''Glucose: '' @ message g])
                  else if status g = ''caution'' then (score1 - 8, factors1 @ [''Glucose: '' @ message g])
                  else (score1, factors1));
          score3 = max 0 score2;
          label = (if score3 < 60 then ''Poor''
                   else if score3 < 75 then ''Fair''
                   else if score3 < 90 then ''Good''
                   else ''Excellent'')
      in \<lparr>score = score3, healthStatus = label, factors = factors2\<rparr>)"

text \<open>The label that the thresholds give to a score.\<close>

definition label_of :: "int \<Rightarrow> string" where
  "label_of s = (if s < 60 then ''Poor'' else if s < 75 then ''Fair''
                 else if s < 90 then ''Good'' else ''Excellent'')"

section \<open>The history store\<close>

text \<open>
  A request body and a stored record are JavaScript objects; \<open>reading\<close> holds the
  fields that the server reads or writes, \<open>None\<close> for a field that the object does not
  have. A field that is present holds a number (\<open>deviceId\<close> a string); \<open>receivedAt\<close> and
  \<open>timestamp\<close> hold the milliseconds that \<^verbatim>\<open>new Date(...)\<close> reads from them. Of
  \<open>timestamp\<close> only the presence is ever used. The fields that no modelled function
  reads (\<^verbatim>\<open>id\<close>, the validity flags, \<^verbatim>\<open>originalValues\<close>, the \<^verbatim>\<open>input\<close> and
  \<^verbatim>\<open>prediction\<close> of a prediction record) are left out.
\<close>

record reading =
  deviceId :: "string option"
  timestamp :: "int option"
  receivedAt :: "int option"
  heartRate :: "real option"
  heartRateAvg :: "real option"
  spo2 :: "real option"
  temperature :: "real option"
  red :: "real option"
  ir :: "real option"
  lastGlucose :: "real option"

definition empty_reading :: reading where
  "empty_reading =
     \<lparr>deviceId = None, timestamp = None, receivedAt = None, heartRate = None,
      heartRateAvg = None, spo2 = None, temperature = None, red = None, ir = None,
      lastGlucose = None\<rparr>"

text \<open>
  The comparator \<^verbatim>\<open>(a, b) => new Date(b.receivedAt) - new Date(a.receivedAt)\<close>. A record
  without \<open>receivedAt\<close> gives an invalid date and the difference is \<^verbatim>\<open>NaN\<close> (\<open>None\<close>).
\<close>

definition newest_first :: "reading \<Rightarrow> reading \<Rightarrow> int option" where
  "newest_first a b =
     (case (receivedAt b, receivedAt a) of
        (Some tb, Some ta) \<Rightarrow> Some (tb - ta)
      | _ \<Rightarrow> None)"

text \<open>
  \<^verbatim>\<open>Array.prototype.sort\<close> is stable and reads a comparator result of \<^verbatim>\<open>NaN\<close> as \<open>+0\<close>.
  Where the comparator orders the elements consistently these two facts fix the result,
  and insertion sort computes it: an element moves behind the elements that the
  comparator puts strictly before it. That is the case when every record of the array
  has a date and when none has. When only some have one, ECMAScript leaves the order to
  the engine; the model then still sorts by insertion, its order need not be the engine's,
  and no theorem below relies on it.
\<close>

definition strictly_after :: "('a \<Rightarrow> 'a \<Rightarrow> int option) \<Rightarrow> 'a \<Rightarrow> 'a \<Rightarrow> bool" where
  "strictly_after cmp x y = (case cmp x y of None \<Rightarrow> False | Some v \<Rightarrow> v > 0)"

fun insert_sorted :: "('a \<Rightarrow> 'a \<Rightarrow> int option) \<Rightarrow> 'a \<Rightarrow> 'a list \<Rightarrow> 'a list" where
  "insert_sorted cmp x [] = [x]"
| "insert_sorted cmp x (y # ys) =
     (if strictly_after cmp x y then y # insert_sorted cmp x ys else x # y # ys)"

definition js_sort :: "('a \<Rightarrow> 'a \<Rightarrow> int option) \<Rightarrow> 'a list \<Rightarrow> 'a list" where
  "js_sort cmp xs = foldr (insert_sorted cmp) xs []"

record last_values =
  lv_heartRate :: real
  lv_spo2 :: real
  lv_temperature :: real
  lv_glucose :: real

text \<open>
  \<^verbatim>\<open>getLastStoredValues(deviceId)\<close> over the module's \<^verbatim>\<open>sensorData\<close>, passed explicitly.
  \<^verbatim>\<open>===\<close> on an absent \<open>deviceId\<close> compares \<^verbatim>\<open>undefined\<close> with \<^verbatim>\<open>undefined\<close>.
\<close>

definition getLastStoredValues :: "reading list \<Rightarrow> string option \<Rightarrow> last_values" where
  "getLastStoredValues sensorData dev =
     (let deviceRecords =
            js_sort newest_first (filter (\<lambda>record. deviceId record = dev) sensorData)
      in case deviceRecords of
           lastRecord # _ \<Rightarrow>
             \<lparr>lv_heartRate = or_default (heartRate lastRecord) 72,
              lv_spo2 = or_default (spo2 lastRecord) 98,
              lv_temperature = or_default (temperature lastRecord) (365 / 10),
              lv_glucose = or_default (lastGlucose lastRecord) 85\<rparr>
         | [] \<Rightarrow>
             \<lparr>lv_heartRate = 72, lv_spo2 = 98, lv_temperature = 365 / 10, lv_glucose = 85\<rparr>)"

section \<open>Synthesis of the vitals\<close>

text \<open>
  \<^verbatim>\<open>generateHealthyValues(originalData)\<close> of the newer server. The result is the request
  body with the synthesized fields written over it (\<^verbatim>\<open>{...originalData, heartRate: ...}\<close>),
  so a field of the body that is not overwritten is kept. The five walks draw in the
  order heart rate, SpO2, temperature, red, IR.
\<close>

definition generateHealthyValues ::
    "reading \<Rightarrow> reading list \<Rightarrow> nat \<Rightarrow> rng \<Rightarrow> nat \<Rightarrow> reading \<times> nat" where
  "generateHealthyValues originalData sensorData timeOfDay rnd n =
     (let lastValues = getLastStoredValues sensorData (deviceId originalData);
          (hr, n1) = applyControlledVariation (lv_heartRate lastValues) (lv_heartRate lastValues)
                       (heartRateRange timeOfDay) rnd n;
          healthyHeartRate = Math_round hr;
          (sp, n2) = applyControlledVariation (lv_spo2 lastValues) (lv_spo2 lastValues)
                       spo2Range rnd n1;
          healthySpO2 = Math_round sp;
          (tp, n3) = applyControlledVariation (lv_temperature lastValues)
                       (lv_temperature lastValues) (tempRange timeOfDay) rnd n2;
          healthyTemp = toFixed1 tp;
          lastRed = or_default (red originalData) 80000;
          lastIR = or_default (ir originalData) 85000;
          (rd, n4) = applyControlledVariation lastRed lastRed redRange rnd n3;
          healthyRed = Math_round rd;
          (irv, n5) = applyControlledVariation lastIR lastIR irRange rnd n4;
          healthyIR = Math_round irv;
          heartRateAvg' =
            (case heartRateAvg originalData of
               None \<Rightarrow> healthyHeartRate
             | Some a \<Rightarrow> if a = 0 then healthyHeartRate
                         else Math_round ((healthyHeartRate + a) / 2))
      in (originalData\<lparr>heartRate := Some healthyHeartRate, heartRateAvg := Some heartRateAvg',
                        spo2 := Some healthySpO2, temperature := Some healthyTemp,
                        red := Some healthyRed, ir := Some healthyIR\<rparr>, n5))"

section \<open>Synthesis of glucose\<close>

text \<open>
  \<^verbatim>\<open>simulateHealthyGlucose(heartRate, heartRateAvg, spo2, temperature, deviceId)\<close> of the
  newer server: a walk from the last stored glucose, then the nudges, each with a draw
  of its own when it applies, the clamp to 70..99 and the rounding to one decimal.
\<close>

definition simulateHealthyGlucose ::
    "real \<Rightarrow> real \<Rightarrow> real \<Rightarrow> real \<Rightarrow> string option \<Rightarrow> reading list \<Rightarrow> nat \<Rightarrow> rng \<Rightarrow> nat
      \<Rightarrow> real \<times> nat" where
  "simulateHealthyGlucose hr hrAvg sp temp dev sensorData timeOfDay rnd n =
     (let lastValues = getLastStoredValues sensorData dev;
          (baseGlucose, n1) = applyControlledVariation (lv_glucose lastValues)
                                (lv_glucose lastValues) (glucoseRange timeOfDay) rnd n;
          (variation1, n2) =
             (if hr > 85 then (0 + rnd n1 * 2, n1 + 1)
              else if hr < 65 then (0 - rnd n1 * 2, n1 + 1)
              else (0, n1));
          (variation2, n3) =
             (if temp > 37 then (variation1 + rnd n2 * (3 / 2), n2 + 1)
              else if temp < 365 / 10 then (variation1 - rnd n2 * 1, n2 + 1)
              else (variation1, n2));
          (variation3, n4) =
             (if sp < 97 then (variation2 + rnd n3 * 1, n3 + 1) else (variation2, n3));
          finalGlucose = baseGlucose + variation3;
          clampedGlucose = max 70 (min 99 finalGlucose)
      in (toFixed1 clampedGlucose, n4))"

text \<open>
  \<^verbatim>\<open>simulateHealthyGlucose(heartRate, heartRateAvg, spo2, temperature)\<close> of the older
  server (\<^verbatim>\<open>src/index.js\<close>): a fresh base drawn from the range of the hour, fixed
  nudges, a noise draw, the clamp to 70..110 and \<^verbatim>\<open>Math.round(x * 10) / 10\<close>. It has no
  device and reads no history.
\<close>

definition simulateHealthyGlucose_old ::
    "real \<Rightarrow> real \<Rightarrow> real \<Rightarrow> real \<Rightarrow> nat \<Rightarrow> rng \<Rightarrow> nat \<Rightarrow> real \<times> nat" where
  "simulateHealthyGlucose_old hr hrAvg sp temp timeOfDay rnd n =
     (let baseGlucose =
            (if isFastingTime timeOfDay then 75 + rnd n * 20
             else if isPostMealTime timeOfDay then 85 + rnd n * 25
             else 80 + rnd n * 15);
          variation1 = (if hr > 80 then 0 + 2 else if hr < 65 then 0 - 2 else 0);
          variation2 = (if temp > 37 then variation1 + 3
                        else if temp < 365 / 10 then variation1 - 1 else variation1);
          variation3 = (if sp < 97 then variation2 + 1 else variation2);
          finalGlucose = baseGlucose + variation3 + (rnd (n + 1) - 1 / 2) * 4;
          clampedGlucose = max 70 (min 110 finalGlucose)
      in (Math_round (clampedGlucose * 10) / 10, n + 2))"

section \<open>The two POST handlers\<close>

text \<open>
  The answers of the handlers: status 400 with the list \<^verbatim>\<open>missingFields\<close>, status 400 with
  the \<^verbatim>\<open>error\<close> text of a range check, status 201 with the record that was stored,
  status 200 with the prediction record that was stored, and status 500 from the
  \<^verbatim>\<open>catch\<close> block.
\<close>

datatype response =
    MissingFields "string list"
  | InvalidInput string
  | Created reading
  | Predicted reading
  | InternalError

text \<open>\<^verbatim>\<open>field in obj\<close> for the field names that the handlers ask about.\<close>

definition has_field :: "reading \<Rightarrow> string \<Rightarrow> bool" where
  "has_field obj field =
     (if field = ''deviceId'' then deviceId obj \<noteq> None
      else if field = ''timestamp'' then timestamp obj \<noteq> None
      else if field = ''heartRate'' then heartRate obj \<noteq> None
      else if field = ''spo2'' then spo2 obj \<noteq> None
      else if field = ''temperature'' then temperature obj \<noteq> None
      else False)"

definition requiredFields :: "string list" where
  "requiredFields = [''deviceId'', ''timestamp'']"

text \<open>
  \<^verbatim>\<open>app.post('/api/sensor-data')\<close> of the newer server, as a step on the store: the
  response, the store afterwards and the index of the next draw. \<open>now\<close> is the clock.
  The record is \<^verbatim>\<open>{id, receivedAt: now, ...healthyData}\<close>: a \<open>receivedAt\<close> of the body
  comes later in the literal and wins. The \<^verbatim>\<open>id\<close> takes one draw. Writing the file every
  tenth record does not change the store and is not modelled.
\<close>

definition post_sensor_data ::
    "reading \<Rightarrow> reading list \<Rightarrow> nat \<Rightarrow> int \<Rightarrow> rng \<Rightarrow> nat \<Rightarrow> response \<times> reading list \<times> nat" where
  "post_sensor_data originalData sensorData timeOfDay now rnd n =
     (let missingFields = filter (\<lambda>field. \<not> has_field originalData field) requiredFields
      in if length missingFields > 0 then (MissingFields missingFields, sensorData, n)
         else
           (let (healthyData, n1) = generateHealthyValues originalData sensorData timeOfDay rnd n;
                record = healthyData\<lparr>receivedAt :=
                           (case receivedAt healthyData of None \<Rightarrow> Some now | Some t \<Rightarrow> Some t)\<rparr>;
                pushed = sensorData @ [record];
                kept = (if length pushed > 10000 then drop (length pushed - 10000) pushed
                        else pushed)
            in (Created record, kept, n1 + 1)))"

definition requiredFields_predict :: "string list" where
  "requiredFields_predict = [''heartRate'', ''spo2'', ''temperature'']"

text \<open>
  \<^verbatim>\<open>app.post('/api/predict-glucose')\<close> of the newer server. The prediction record has a
  \<open>timestamp\<close>, the device and \<open>lastGlucose\<close>, and no \<open>receivedAt\<close>. Reading a property of
  an undefined interpretation throws, the handler answers 500 and stores nothing.
\<close>

definition post_predict_glucose ::
    "reading \<Rightarrow> reading list \<Rightarrow> nat \<Rightarrow> int \<Rightarrow> rng \<Rightarrow> nat \<Rightarrow> response \<times> reading list \<times> nat" where
  "post_predict_glucose body sensorData timeOfDay now rnd n =
     (let missingFields = filter (\<lambda>field. \<not> has_field body field) requiredFields_predict
      in if length missingFields > 0 then (MissingFields missingFields, sensorData, n)
         else
           (case (heartRate body, spo2 body, temperature body) of
              (Some hr, Some sp, Some temp) \<Rightarrow>
                (let avgHeartRate = (case heartRateAvg body of None \<Rightarrow> hr | Some a \<Rightarrow> a)
                 in if hr < 0 \<or> hr > 200 then (InvalidInput ''Invalid heart rate'', sensorData, n)
                    else if sp < 70 \<or> sp > 100 then (InvalidInput ''Invalid SpO2'', sensorData, n)
                    else if temp < 30 \<or> temp > 45 then
                      (InvalidInput ''Invalid temperature'', sensorData, n)
                    else
                      (let dev = (case deviceId body of
                                    None \<Rightarrow> ''unknown''
                                  | Some d \<Rightarrow> if d = [] then ''unknown'' else d);
                           (predictedGlucose, n1) =
                              simulateHealthyGlucose hr avgHeartRate sp temp (Some dev)
                                sensorData timeOfDay rnd n
                       in case interpretGlucose predictedGlucose of
                            None \<Rightarrow> (InternalError, sensorData, n1 + 1)
                          | Some i \<Rightarrow>
                              (let predictionRecord =
                                     empty_reading\<lparr>timestamp := Some now, deviceId := Some dev,
                                                   lastGlucose := Some predictedGlucose\<rparr>
                               in (Predicted predictionRecord, sensorData @ [predictionRecord],
                                   n1 + 1))))
            | _ \<Rightarrow> (InternalError, sensorData, n)))"

section \<open>The plausibility envelope\<close>

text \<open>
  The global envelope of the specification: heart rate 55..95, SpO2 95..100, temperature
  36.0..37.2 on a record that has the three vitals, and glucose 70..99 on a record that
  has a \<open>lastGlucose\<close>.
\<close>

definition vitals_in_envelope :: "reading \<Rightarrow> bool" where
  "vitals_in_envelope r =
     (case (heartRate r, spo2 r, temperature r) of
        (Some hr, Some sp, Some t) \<Rightarrow>
          55 \<le> hr \<and> hr \<le> 95 \<and> 95 \<le> sp \<and> sp \<le> 100 \<and> 36 \<le> t \<and> t \<le> 372 / 10
      | _ \<Rightarrow> False)"

definition glucose_in_envelope :: "reading \<Rightarrow> bool" where
  "glucose_in_envelope r =
     (case lastGlucose r of Some g \<Rightarrow> 70 \<le> g \<and> g \<le> 99 | None \<Rightarrow> False)"

section \<open>Concrete draw sequences\<close>

text \<open>The sequence that always draws \<open>c\<close>, and the sequence that starts with the draws
  \<open>xs\<close> and continues with \<open>1/2\<close>.\<close>

definition constant_draws :: "real \<Rightarrow> rng" where
  "constant_draws c i = c"

definition draws_of :: "real list \<Rightarrow> rng" where
  "draws_of xs i = (if i < length xs then xs ! i else 1 / 2)"

text \<open>
  Draws for three prediction requests in a row: each request takes 0.25, 0.75, 0.25 for
  the walk (down by the minimum change, up by 0.25, then forced down) and 0.5 for the
  \<^verbatim>\<open>id\<close>.
\<close>

definition three_posts_draws :: rng where
  "three_posts_draws =
     draws_of [1 / 4, 3 / 4, 1 / 4, 1 / 2, 1 / 4, 3 / 4, 1 / 4, 1 / 2,
               1 / 4, 3 / 4, 1 / 4, 1 / 2]"

section \<open>Rounding keeps a value between two bounds on the rounding grid\<close>

lemma toFixed1_bounds:
  assumes "of_int a / 10 \<le> x" and "x \<le> of_int b / 10" and "0 \<le> a" and "b < 10 ^ 22"
  shows "of_int a / 10 \<le> toFixed1 x \<and> toFixed1 x \<le> of_int b / 10"
proof -
  have x0: "0 \<le> x"
    using assms(1,3) by (smt (verit) divide_nonneg_nonneg of_int_0_le_iff)
  have xb: "x < 10 ^ 21"
  proof -
    have "(of_int b :: real) < 10 ^ 22"
      using assms(4) by (metis of_int_less_iff of_int_numeral of_int_power)
    then show ?thesis using assms(2) by simp
  qed
  have lo: "a \<le> \<lfloor>x * 10 + 1 / 2\<rfloor>"
  proof -
    have "of_int a \<le> x * 10 + 1 / 2" using assms(1) by (simp add: field_simps)
    then show ?thesis by (simp add: le_floor_iff)
  qed
  have hi: "\<lfloor>x * 10 + 1 / 2\<rfloor> \<le> b"
  proof -
    have "x * 10 + 1 / 2 < of_int b + 1" using assms(2) by (simp add: field_simps)
    then show ?thesis by (simp add: floor_le_iff)
  qed
  have "toFixed1 x = of_int \<lfloor>x * 10 + 1 / 2\<rfloor> / 10"
    using x0 xb by (simp add: toFixed1_def)
  then show ?thesis using lo hi by (simp add: divide_le_cancel)
qed

lemma Math_round10_bounds:
  assumes "of_int a / 10 \<le> x" and "x \<le> of_int b / 10"
  shows "of_int a / 10 \<le> Math_round (x * 10) / 10
         \<and> Math_round (x * 10) / 10 \<le> of_int b / 10"
proof -
  have lo: "a \<le> \<lfloor>x * 10 + 1 / 2\<rfloor>"
  proof -
    have "of_int a \<le> x * 10 + 1 / 2" using assms(1) by (simp add: field_simps)
    then show ?thesis by (simp add: le_floor_iff)
  qed
  have hi: "\<lfloor>x * 10 + 1 / 2\<rfloor> \<le> b"
  proof -
    have "x * 10 + 1 / 2 < of_int b + 1" using assms(2) by (simp add: field_simps)
    then show ?thesis by (simp add: floor_le_iff)
  qed
  show ?thesis using lo hi by (simp add: Math_round_def divide_le_cancel)
qed

lemma clamp_70_99_rounded:
  "70 \<le> toFixed1 (max 70 (min 99 y)) \<and> toFixed1 (max 70 (min 99 y)) \<le> 99"
  using toFixed1_bounds [of 700 "max 70 (min 99 y)" 990] by simp

lemma clamp_70_110_rounded:
  "70 \<le> Math_round (max 70 (min 110 y) * 10) / 10
   \<and> Math_round (max 70 (min 110 y) * 10) / 10 \<le> 110"
  using Math_round10_bounds [of 700 "max 70 (min 110 y)" 1100] by simp

section \<open>Facts about the walk and the synthesized fields\<close>

lemma walk_in_band:
  assumes "min_r band \<le> max_r band"
  shows "min_r band \<le> fst (applyControlledVariation c l band rnd n)
         \<and> fst (applyControlledVariation c l band rnd n) \<le> max_r band"
  using assms by (simp add: applyControlledVariation_def Let_def)

lemma walk_min_change:
  assumes "0 < minChange band"
    and "min_r band + minChange band \<le> l" and "l \<le> max_r band - minChange band"
  shows "minChange band \<le> \<bar>fst (applyControlledVariation c l band rnd n) - l\<bar>"
  using assms by (simp add: applyControlledVariation_def Let_def max_def min_def abs_if)

lemma Math_round_bounds:
  assumes "of_int a \<le> x" and "x \<le> of_int b"
  shows "of_int a \<le> Math_round x \<and> Math_round x \<le> of_int b"
proof -
  have lo: "a \<le> \<lfloor>x + 1 / 2\<rfloor>"
  proof -
    have "of_int a \<le> x + 1 / 2" using assms(1) by simp
    then show ?thesis by (simp add: le_floor_iff)
  qed
  have hi: "\<lfloor>x + 1 / 2\<rfloor> \<le> b"
  proof -
    have "x + 1 / 2 < of_int b + 1" using assms(2) by simp
    then show ?thesis by (simp add: floor_le_iff)
  qed
  show ?thesis using lo hi by (simp add: Math_round_def)
qed

lemma unit_draws_of:
  assumes "list_all (\<lambda>x. 0 \<le> x \<and> x < 1) xs"
  shows "unit_draws (draws_of xs)"
  using assms by (simp add: unit_draws_def draws_of_def list_all_length)

lemma heartRateRange_envelope:
  "55 \<le> min_r (heartRateRange h) \<and> min_r (heartRateRange h) \<le> max_r (heartRateRange h)
   \<and> max_r (heartRateRange h) \<le> 95"
  by (simp add: heartRateRange_def mk_range_def)

lemma tempRange_envelope:
  "36 \<le> min_r (tempRange h) \<and> min_r (tempRange h) \<le> max_r (tempRange h)
   \<and> max_r (tempRange h) \<le> 372 / 10"
  by (simp add: tempRange_def mk_range_def)

lemma glucoseRange_envelope:
  "70 \<le> min_r (glucoseRange h) \<and> min_r (glucoseRange h) \<le> max_r (glucoseRange h)
   \<and> max_r (glucoseRange h) \<le> 99"
  by (simp add: glucoseRange_def mk_range_def)

lemma gen_heartRate:
  "heartRate (fst (generateHealthyValues originalData sensorData timeOfDay rnd n)) =
     Some (Math_round (fst (applyControlledVariation
        (lv_heartRate (getLastStoredValues sensorData (deviceId originalData)))
        (lv_heartRate (getLastStoredValues sensorData (deviceId originalData)))
        (heartRateRange timeOfDay) rnd n)))"
  by (simp add: generateHealthyValues_def Let_def split_beta)

lemma gen_spo2:
  "spo2 (fst (generateHealthyValues originalData sensorData timeOfDay rnd n)) =
     Some (Math_round (fst (applyControlledVariation
        (lv_spo2 (getLastStoredValues sensorData (deviceId originalData)))
        (lv_spo2 (getLastStoredValues sensorData (deviceId originalData)))
        spo2Range rnd
        (snd (applyControlledVariation
           (lv_heartRate (getLastStoredValues sensorData (deviceId originalData)))
           (lv_heartRate (getLastStoredValues sensorData (deviceId originalData)))
           (heartRateRange timeOfDay) rnd n)))))"
  by (simp add: generateHealthyValues_def Let_def split_beta)

lemma gen_temperature:
  "\<exists>m. temperature (fst (generateHealthyValues originalData sensorData timeOfDay rnd n)) =
     Some (toFixed1 (fst (applyControlledVariation
        (lv_temperature (getLastStoredValues sensorData (deviceId originalData)))
        (lv_temperature (getLastStoredValues sensorData (deviceId originalData)))
        (tempRange timeOfDay) rnd m)))"
  by (simp add: generateHealthyValues_def Let_def split_beta) (rule exI, rule refl)

lemma gen_kept:
  "lastGlucose (fst (generateHealthyValues originalData sensorData timeOfDay rnd n))
     = lastGlucose originalData
   \<and> deviceId (fst (generateHealthyValues originalData sensorData timeOfDay rnd n))
     = deviceId originalData
   \<and> receivedAt (fst (generateHealthyValues originalData sensorData timeOfDay rnd n))
     = receivedAt originalData"
  by (simp add: generateHealthyValues_def Let_def split_beta)

lemma gen_in_envelope:
  "vitals_in_envelope (fst (generateHealthyValues originalData sensorData timeOfDay rnd n))"
proof -
  let ?g = "fst (generateHealthyValues originalData sensorData timeOfDay rnd n)"
  let ?lv = "getLastStoredValues sensorData (deviceId originalData)"
  let ?h = "fst (applyControlledVariation (lv_heartRate ?lv) (lv_heartRate ?lv)
                   (heartRateRange timeOfDay) rnd n)"
  have hb: "55 \<le> ?h \<and> ?h \<le> 95"
    using walk_in_band [of "heartRateRange timeOfDay" "lv_heartRate ?lv" "lv_heartRate ?lv" rnd n]
      heartRateRange_envelope [of timeOfDay] by linarith
  have h: "heartRate ?g = Some (Math_round ?h)" by (rule gen_heartRate)
  have hr: "55 \<le> Math_round ?h \<and> Math_round ?h \<le> 95"
    using Math_round_bounds [of 55 ?h 95] hb by simp
  let ?m = "snd (applyControlledVariation (lv_heartRate ?lv) (lv_heartRate ?lv)
                   (heartRateRange timeOfDay) rnd n)"
  let ?s = "fst (applyControlledVariation (lv_spo2 ?lv) (lv_spo2 ?lv) spo2Range rnd ?m)"
  have s: "spo2 ?g = Some (Math_round ?s)" by (rule gen_spo2)
  have sb: "95 \<le> ?s \<and> ?s \<le> 100"
    using walk_in_band [of spo2Range "lv_spo2 ?lv" "lv_spo2 ?lv" rnd ?m]
    by (simp add: spo2Range_def mk_range_def)
  have sr: "95 \<le> Math_round ?s \<and> Math_round ?s \<le> 100"
    using Math_round_bounds [of 95 ?s 100] sb by simp
  obtain k where t: "temperature ?g = Some (toFixed1 (fst (applyControlledVariation
      (lv_temperature ?lv) (lv_temperature ?lv) (tempRange timeOfDay) rnd k)))"
    using gen_temperature by blast
  let ?t = "fst (applyControlledVariation (lv_temperature ?lv) (lv_temperature ?lv)
                   (tempRange timeOfDay) rnd k)"
  have tb: "36 \<le> ?t \<and> ?t \<le> 372 / 10"
    using walk_in_band [of "tempRange timeOfDay" "lv_temperature ?lv" "lv_temperature ?lv" rnd k]
      tempRange_envelope [of timeOfDay] by linarith
  have tr: "36 \<le> toFixed1 ?t \<and> toFixed1 ?t \<le> 372 / 10"
    using toFixed1_bounds [of 360 ?t 372] tb by simp
  show ?thesis
    unfolding vitals_in_envelope_def h s t using hr sr tr by simp
qed

lemma sensor_created:
  assumes "post_sensor_data originalData sensorData timeOfDay now rnd n
             = (Created r, sensorData', n')"
  shows "sensorData' \<noteq> [] \<and> last sensorData' = r \<and> vitals_in_envelope r
         \<and> lastGlucose r = lastGlucose originalData"
proof -
  let ?g = "fst (generateHealthyValues originalData sensorData timeOfDay rnd n)"
  let ?r = "?g\<lparr>receivedAt := (case receivedAt ?g of None \<Rightarrow> Some now | Some t \<Rightarrow> Some t)\<rparr>"
  let ?pushed = "sensorData @ [?r]"
  have nm: "\<not> length (filter (\<lambda>field. \<not> has_field originalData field) requiredFields) > 0"
    using assms unfolding post_sensor_data_def Let_def by (auto split: if_splits)
  have eq: "post_sensor_data originalData sensorData timeOfDay now rnd n =
      (Created ?r,
       (if length ?pushed > 10000 then drop (length ?pushed - 10000) ?pushed else ?pushed),
       snd (generateHealthyValues originalData sensorData timeOfDay rnd n) + 1)"
    using nm unfolding post_sensor_data_def Let_def split_beta by simp
  have r: "r = ?r"
    and st: "sensorData' =
      (if length ?pushed > 10000 then drop (length ?pushed - 10000) ?pushed else ?pushed)"
    using assms eq by simp_all
  have v: "vitals_in_envelope ?r"
    using gen_in_envelope [of originalData sensorData timeOfDay rnd n]
    by (simp add: vitals_in_envelope_def)
  have g: "lastGlucose ?r = lastGlucose originalData"
    using gen_kept [of originalData sensorData timeOfDay rnd n] by simp
  have l: "sensorData' \<noteq> [] \<and> last sensorData' = ?r"
    unfolding st by simp
  show ?thesis using r v g l by simp
qed

lemma predict_created:
  assumes "post_predict_glucose body sensorData timeOfDay now rnd n
             = (Predicted p, sensorData', n')"
  shows "sensorData' = sensorData @ [p] \<and> glucose_in_envelope p"
proof -
  have b: "70 \<le> fst (simulateHealthyGlucose hr hrAvg sp temp dev sensorData timeOfDay rnd n)
       \<and> fst (simulateHealthyGlucose hr hrAvg sp temp dev sensorData timeOfDay rnd n) \<le> 99"
    for hr hrAvg sp temp dev
    by (simp add: simulateHealthyGlucose_def Let_def clamp_70_99_rounded split: prod.splits)
  show ?thesis
    using assms b unfolding post_predict_glucose_def Let_def split_beta glucose_in_envelope_def
    by (auto split: if_splits option.splits)
qed

section \<open>The head of the sorted device records\<close>

lemma insert_sorted_nonempty: "insert_sorted cmp x ys \<noteq> []"
  by (cases ys) simp_all

lemma hd_insert_sorted:
  "hd (insert_sorted cmp x ys) = (if ys \<noteq> [] \<and> strictly_after cmp x (hd ys) then hd ys else x)"
  by (cases ys) simp_all

lemma js_sort_Cons: "js_sort cmp (x # xs) = insert_sorted cmp x (js_sort cmp xs)"
  by (simp add: js_sort_def)

lemma js_sort_Nil: "js_sort cmp [] = []"
  by (simp add: js_sort_def)

lemma js_sort_empty_iff: "js_sort cmp xs = [] \<longleftrightarrow> xs = []"
  by (cases xs) (simp_all add: js_sort_Nil js_sort_Cons insert_sorted_nonempty)

lemma set_insert_sorted: "set (insert_sorted cmp x ys) = insert x (set ys)"
  by (induction ys) auto

lemma set_js_sort: "set (js_sort cmp xs) = set xs"
  by (induction xs) (simp_all add: js_sort_Nil js_sort_Cons set_insert_sorted)

lemma strictly_after_dated:
  assumes "receivedAt x \<noteq> None" and "receivedAt y \<noteq> None"
  shows "strictly_after newest_first x y \<longleftrightarrow> receivedAt x < receivedAt y"
  using assms by (auto simp add: strictly_after_def newest_first_def)

text \<open>
  When every record of the array has a date, the head of the sorted array is the record
  with the greatest date, the first of them in the order of the store.
\<close>

lemma hd_js_sort_newest:
  assumes "\<forall>x \<in> set (before @ r # after). receivedAt x \<noteq> None"
    and "\<forall>x \<in> set before. receivedAt x < receivedAt r"
    and "\<forall>x \<in> set after. receivedAt x \<le> receivedAt r"
  shows "hd (js_sort newest_first (before @ r # after)) = r"
  using assms
proof (induction before)
  case Nil
  show ?case
  proof (cases "js_sort newest_first after = []")
    case True
    then show ?thesis by (simp add: js_sort_Cons)
  next
    case False
    then have "hd (js_sort newest_first after) \<in> set after"
      using set_js_sort [of newest_first after] hd_in_set by blast
    then have "receivedAt (hd (js_sort newest_first after)) \<noteq> None"
      and "receivedAt (hd (js_sort newest_first after)) \<le> receivedAt r"
      using Nil.prems by simp_all
    moreover have "receivedAt r \<noteq> None" using Nil.prems by simp
    ultimately have "\<not> strictly_after newest_first r (hd (js_sort newest_first after))"
      by (simp add: strictly_after_dated)
    then show ?thesis by (simp add: js_sort_Cons hd_insert_sorted)
  qed
next
  case (Cons b bs)
  have ih: "hd (js_sort newest_first (bs @ r # after)) = r"
    using Cons by simp
  have ne: "js_sort newest_first (bs @ r # after) \<noteq> []"
    by (simp add: js_sort_empty_iff)
  have "receivedAt b \<noteq> None" and "receivedAt r \<noteq> None" and "receivedAt b < receivedAt r"
    using Cons.prems by simp_all
  then have "strictly_after newest_first b r"
    by (simp add: strictly_after_dated)
  then show ?case
    using ih ne by (simp add: js_sort_Cons hd_insert_sorted)
qed

text \<open>
  When no record of the array has a date every comparison is \<^verbatim>\<open>NaN\<close>, the stable sort
  keeps the order of the store, and the head is the record that was stored first.
\<close>

lemma hd_js_sort_undated:
  assumes "\<forall>x \<in> set (r # after). receivedAt x = None"
  shows "hd (js_sort newest_first (r # after)) = r"
proof -
  have "\<not> strictly_after newest_first r y" for y
    using assms by (simp add: strictly_after_def newest_first_def split: option.splits)
  then show ?thesis by (simp add: js_sort_Cons hd_insert_sorted)
qed

lemma last_values_of_head:
  assumes "js_sort newest_first (filter (\<lambda>record. deviceId record = dev) sensorData) \<noteq> []"
  shows "getLastStoredValues sensorData dev =
     (let h = hd (js_sort newest_first (filter (\<lambda>record. deviceId record = dev) sensorData))
      in \<lparr>lv_heartRate = or_default (heartRate h) 72,
          lv_spo2 = or_default (spo2 h) 98,
          lv_temperature = or_default (temperature h) (365 / 10),
          lv_glucose = or_default (lastGlucose h) 85\<rparr>)"
  using assms unfolding getLastStoredValues_def Let_def by (simp split: list.splits)

section \<open>The newer glucose synthesis stays in 70..99\<close>

text \<open>
  Claim C3. Whatever the device, the heart rate, temperature and SpO2 passed in, the
  history (so whatever the previous glucose, inside 70..99 or not), the hour and the
  draws, the newer \<open>simulateHealthyGlucose\<close> returns a value in \<open>[70, 99]\<close>: the clamp
  comes after the nudges, and rounding to one decimal place cannot leave the interval
  because both ends have one decimal place.
\<close>

theorem simulateHealthyGlucose_in_70_99:
  "70 \<le> fst (simulateHealthyGlucose hr hrAvg sp temp dev sensorData timeOfDay rnd n)
   \<and> fst (simulateHealthyGlucose hr hrAvg sp temp dev sensorData timeOfDay rnd n) \<le> 99"
  by (simp add: simulateHealthyGlucose_def Let_def clamp_70_99_rounded split: prod.splits)

section \<open>The band tables\<close>

text \<open>
  Claim C5. The band of each vital is a function of the hour, so every hour has exactly
  one. Hour by hour from 0 to 23: the heart rate band is (55,75,1) at 0..6 and 22..23,
  (65,90,1) at 9..18 and (60,95,1) at 7, 8, 19, 20, 21; the temperature band is
  (36.0,36.8,0.1) at 6..10, (36.5,37.2,0.1) at 16..20 and (36.1,37.2,0.1) elsewhere; the
  glucose band is (75,95,0.5) at 0..7 and 22..23, (80,99,0.5) at 8..10, 12..14 and
  18..20, and (75,99,0.5) at 11, 15, 16, 17, 21; SpO2 is always (95,100,0.5). Hour 18 is
  active and hour 19 is not.
\<close>

theorem band_tables:
  "map heartRateRange [0..<24] =
     replicate 7 (mk_range 55 75 1) @ replicate 2 (mk_range 60 95 1)
     @ replicate 10 (mk_range 65 90 1) @ replicate 3 (mk_range 60 95 1)
     @ replicate 2 (mk_range 55 75 1)
   \<and> map tempRange [0..<24] =
     replicate 6 (mk_range (361 / 10) (372 / 10) (1 / 10))
     @ replicate 5 (mk_range 36 (368 / 10) (1 / 10))
     @ replicate 5 (mk_range (361 / 10) (372 / 10) (1 / 10))
     @ replicate 5 (mk_range (365 / 10) (372 / 10) (1 / 10))
     @ replicate 3 (mk_range (361 / 10) (372 / 10) (1 / 10))
   \<and> map glucoseRange [0..<24] =
     replicate 8 (mk_range 75 95 (1 / 2)) @ replicate 3 (mk_range 80 99 (1 / 2))
     @ [mk_range 75 99 (1 / 2)] @ replicate 3 (mk_range 80 99 (1 / 2))
     @ replicate 3 (mk_range 75 99 (1 / 2)) @ replicate 3 (mk_range 80 99 (1 / 2))
     @ [mk_range 75 99 (1 / 2)] @ replicate 2 (mk_range 75 95 (1 / 2))
   \<and> spo2Range = mk_range 95 100 (1 / 2)
   \<and> heartRateRange 23 = mk_range 55 75 1
   \<and> heartRateRange 12 = mk_range 65 90 1
   \<and> heartRateRange 20 = mk_range 60 95 1
   \<and> isActiveTime 18 \<and> \<not> isActiveTime 19"
  by (simp add: heartRateRange_def tempRange_def glucoseRange_def spo2Range_def
      isRestingTime_def isActiveTime_def isFastingTime_def isPostMealTime_def
      upt_rec eval_nat_numeral)

section \<open>The health score\<close>

text \<open>
  Claim C8. With the three vital interpretations and the glucose interpretation at
  status good, \<open>calculateHealthScore\<close> returns 100 and Excellent, with no factor. With one
  of the three vitals at warning (in any of the three positions), the other two good
  and glucose at warning, it returns 65 and Fair. For every list of vital
  interpretations and every glucose argument the score is at least 0 and the label is the
  one the thresholds give: below 60 Poor, below 75 Fair, below 90 Good, else Excellent.
\<close>

theorem calculateHealthScore_cases:
  "calculateHealthScore
       [(v1, i1\<lparr>status := ''good''\<rparr>), (v2, i2\<lparr>status := ''good''\<rparr>),
        (v3, i3\<lparr>status := ''good''\<rparr>)] (Some (g\<lparr>status := ''good''\<rparr>))
     = \<lparr>score = 100, healthStatus = ''Excellent'', factors = []\<rparr>
   \<and> (let r = calculateHealthScore
                 [(v1, i1\<lparr>status := ''warning''\<rparr>), (v2, i2\<lparr>status := ''good''\<rparr>),
                  (v3, i3\<lparr>status := ''good''\<rparr>)] (Some (g\<lparr>status := ''warning''\<rparr>))
       in score r = 65 \<and> healthStatus r = ''Fair'')
   \<and> (let r = calculateHealthScore
                 [(v1, i1\<lparr>status := ''good''\<rparr>), (v2, i2\<lparr>status := ''warning''\<rparr>),
                  (v3, i3\<lparr>status := ''good''\<rparr>)] (Some (g\<lparr>status := ''warning''\<rparr>))
       in score r = 65 \<and> healthStatus r = ''Fair'')
   \<and> (let r = calculateHealthScore
                 [(v1, i1\<lparr>status := ''good''\<rparr>), (v2, i2\<lparr>status := ''good''\<rparr>),
                  (v3, i3\<lparr>status := ''warning''\<rparr>)] (Some (g\<lparr>status := ''warning''\<rparr>))
       in score r = 65 \<and> healthStatus r = ''Fair'')
   \<and> 0 \<le> score (calculateHealthScore vitals glucose)
   \<and> healthStatus (calculateHealthScore vitals glucose)
       = label_of (score (calculateHealthScore vitals glucose))"
  by (simp add: calculateHealthScore_def deduct_vital_def label_of_def Let_def
      split: prod.splits option.splits)

section \<open>The glucose interpretation is partial\<close>

text \<open>
  Claim C10. At 99.5 the newer \<open>interpretGlucose\<close> matches none of its four branches and
  returns undefined. The levels without an interpretation are exactly those strictly
  between 99 and 100 and those strictly between 125 and 126.
\<close>

theorem interpretGlucose_undefined:
  "interpretGlucose (995 / 10) = None
   \<and> (\<forall>g. interpretGlucose g = None \<longleftrightarrow> (99 < g \<and> g < 100) \<or> (125 < g \<and> g < 126))"
  by (auto simp add: interpretGlucose_def)

section \<open>Rejection of a body without a required field\<close>

lemma missing_sensor_fields:
  "filter (\<lambda>field. \<not> has_field originalData field) requiredFields =
     (if deviceId originalData = None then [''deviceId''] else [])
     @ (if timestamp originalData = None then [''timestamp''] else [])"
  by (simp add: requiredFields_def has_field_def)

text \<open>
  Claim C9. When the body of POST /api/sensor-data lacks \<open>deviceId\<close> or \<open>timestamp\<close>, the
  handler answers with the list of missing fields, which names \<open>deviceId\<close> exactly when it
  is absent and \<open>timestamp\<close> exactly when it is absent, in that order; the store is the
  one it was before and no draw is taken.
\<close>

theorem post_sensor_data_missing_fields:
  assumes "deviceId originalData = None \<or> timestamp originalData = None"
  shows "post_sensor_data originalData sensorData timeOfDay now rnd n =
           (MissingFields ((if deviceId originalData = None then [''deviceId''] else [])
                           @ (if timestamp originalData = None then [''timestamp''] else [])),
            sensorData, n)"
proof -
  let ?m = "(if deviceId originalData = None then [''deviceId''] else [])
            @ (if timestamp originalData = None then [''timestamp''] else [])"
  have "length ?m > 0" using assms by auto
  then show ?thesis
    unfolding post_sensor_data_def missing_sensor_fields Let_def by simp
qed

theorem post_sensor_data_missing_fields_witness:
  "timestamp (empty_reading\<lparr>deviceId := Some ''esp32''\<rparr>) = None
   \<and> post_sensor_data (empty_reading\<lparr>deviceId := Some ''esp32''\<rparr>)
        [empty_reading\<lparr>deviceId := Some ''esp32'', receivedAt := Some 1\<rparr>] 12 1000
        (constant_draws (1 / 2)) 0
      = (MissingFields [''timestamp''],
         [empty_reading\<lparr>deviceId := Some ''esp32'', receivedAt := Some 1\<rparr>], 0)"
  using post_sensor_data_missing_fields
    [of "empty_reading\<lparr>deviceId := Some ''esp32''\<rparr>"
        "[empty_reading\<lparr>deviceId := Some ''esp32'', receivedAt := Some 1\<rparr>]"
        12 1000 "constant_draws (1 / 2)" 0]
  by (simp add: empty_reading_def)

section \<open>The two glucose paths\<close>

text \<open>
  The older \<open>simulateHealthyGlucose\<close> takes no device and no history and returns a value
  in \<open>[70, 110]\<close>; the newer one returns a value in \<open>[70, 99]\<close>. At hour 12, for heart
  rate 72, SpO2 98, temperature 36.8 and every draw equal to 0.75, the older path returns
  104.8, above 99, while the newer path returns 85.8 for a device without history and
  90.8 for a device whose only stored glucose is 90.
\<close>

lemma glucose_paths_ranges:
  "(\<forall>hr hrAvg sp temp timeOfDay rnd n.
       70 \<le> fst (simulateHealthyGlucose_old hr hrAvg sp temp timeOfDay rnd n)
       \<and> fst (simulateHealthyGlucose_old hr hrAvg sp temp timeOfDay rnd n) \<le> 110)
   \<and> (\<forall>hr hrAvg sp temp dev sensorData timeOfDay rnd n.
       70 \<le> fst (simulateHealthyGlucose hr hrAvg sp temp dev sensorData timeOfDay rnd n)
       \<and> fst (simulateHealthyGlucose hr hrAvg sp temp dev sensorData timeOfDay rnd n) \<le> 99)
   \<and> unit_draws (constant_draws (3 / 4))
   \<and> fst (simulateHealthyGlucose_old 72 72 98 (368 / 10) 12 (constant_draws (3 / 4)) 0)
       = 1048 / 10
   \<and> fst (simulateHealthyGlucose 72 72 98 (368 / 10) (Some ''d'') [] 12
            (constant_draws (3 / 4)) 0) = 858 / 10
   \<and> fst (simulateHealthyGlucose 72 72 98 (368 / 10) (Some ''d'')
            [empty_reading\<lparr>deviceId := Some ''d'', lastGlucose := Some 90\<rparr>] 12
            (constant_draws (3 / 4)) 0) = 908 / 10"
proof -
  have old: "70 \<le> fst (simulateHealthyGlucose_old hr hrAvg sp temp timeOfDay rnd n)
       \<and> fst (simulateHealthyGlucose_old hr hrAvg sp temp timeOfDay rnd n) \<le> 110"
    for hr hrAvg sp temp timeOfDay rnd n
    unfolding simulateHealthyGlucose_old_def Let_def fst_conv by (rule clamp_70_110_rounded)
  have new: "70 \<le> fst (simulateHealthyGlucose hr hrAvg sp temp dev sensorData timeOfDay rnd n)
       \<and> fst (simulateHealthyGlucose hr hrAvg sp temp dev sensorData timeOfDay rnd n) \<le> 99"
    for hr hrAvg sp temp dev sensorData timeOfDay rnd n
    by (simp add: simulateHealthyGlucose_def Let_def clamp_70_99_rounded split: prod.splits)
  have draws: "unit_draws (constant_draws (3 / 4))"
    by (simp add: unit_draws_def constant_draws_def)
  have e1: "fst (simulateHealthyGlucose_old 72 72 98 (368 / 10) 12 (constant_draws (3 / 4)) 0)
       = 1048 / 10"
    by (simp add: simulateHealthyGlucose_old_def constant_draws_def isFastingTime_def
        isPostMealTime_def Math_round_def)
  have e2: "fst (simulateHealthyGlucose 72 72 98 (368 / 10) (Some ''d'') [] 12
            (constant_draws (3 / 4)) 0) = 858 / 10"
    by (simp add: simulateHealthyGlucose_def constant_draws_def glucoseRange_def
        isFastingTime_def isPostMealTime_def getLastStoredValues_def js_sort_def
        applyControlledVariation_def mk_range_def toFixed1_def)
  have e3: "fst (simulateHealthyGlucose 72 72 98 (368 / 10) (Some ''d'')
            [empty_reading\<lparr>deviceId := Some ''d'', lastGlucose := Some 90\<rparr>] 12
            (constant_draws (3 / 4)) 0) = 908 / 10"
    by (simp add: simulateHealthyGlucose_def constant_draws_def glucoseRange_def
        isFastingTime_def isPostMealTime_def getLastStoredValues_def js_sort_def
        applyControlledVariation_def mk_range_def toFixed1_def empty_reading_def
        or_default_def)
  show ?thesis using old new draws e1 e2 e3 by blast
qed

text \<open>
  The base of the older path comes from the range of the hour: with draws in \<open>[0, 1)\<close>
  the result is at most 103 in the fasting hours, between 75 and 103 in the regular
  hours and between 80 and 110 in the post-meal hours, whatever the vitals.
\<close>

lemma old_glucose_by_hour:
  assumes "unit_draws rnd"
  shows "(if isFastingTime h then
            70 \<le> fst (simulateHealthyGlucose_old hr hrAvg sp temp h rnd n)
            \<and> fst (simulateHealthyGlucose_old hr hrAvg sp temp h rnd n) \<le> 103
          else if isPostMealTime h then
            80 \<le> fst (simulateHealthyGlucose_old hr hrAvg sp temp h rnd n)
            \<and> fst (simulateHealthyGlucose_old hr hrAvg sp temp h rnd n) \<le> 110
          else
            75 \<le> fst (simulateHealthyGlucose_old hr hrAvg sp temp h rnd n)
            \<and> fst (simulateHealthyGlucose_old hr hrAvg sp temp h rnd n) \<le> 103)"
proof -
  define base where "base =
     (if isFastingTime h then 75 + rnd n * 20
      else if isPostMealTime h then 85 + rnd n * 25 else 80 + rnd n * 15)"
  define v1 :: real where "v1 = (if hr > 80 then 0 + 2 else if hr < 65 then 0 - 2 else 0)"
  define v2 where "v2 = (if temp > 37 then v1 + 3 else if temp < 365 / 10 then v1 - 1 else v1)"
  define v3 where "v3 = (if sp < 97 then v2 + 1 else v2)"
  define final where "final = base + v3 + (rnd (n + 1) - 1 / 2) * 4"
  have r: "fst (simulateHealthyGlucose_old hr hrAvg sp temp h rnd n)
             = Math_round (max 70 (min 110 final) * 10) / 10"
    unfolding simulateHealthyGlucose_old_def Let_def fst_conv final_def v3_def v2_def v1_def
      base_def by (rule refl)
  have d0: "0 \<le> rnd n \<and> rnd n < 1" and d1: "0 \<le> rnd (n + 1) \<and> rnd (n + 1) < 1"
    using assms by (simp_all add: unit_draws_def)
  have v: "- 3 \<le> v3 \<and> v3 \<le> 6"
    by (simp add: v3_def v2_def v1_def)
  show ?thesis
  proof (cases "isFastingTime h")
    case True
    then have "75 \<le> base \<and> base \<le> 95" using d0 by (simp add: base_def)
    then have "final \<le> 103" using v d1 by (simp add: final_def)
    then have "of_int 700 / 10 \<le> max 70 (min 110 final)
               \<and> max 70 (min 110 final) \<le> of_int 1030 / 10" by simp
    then have "of_int 700 / 10 \<le> Math_round (max 70 (min 110 final) * 10) / 10
               \<and> Math_round (max 70 (min 110 final) * 10) / 10 \<le> of_int 1030 / 10"
      using Math_round10_bounds [of 700 "max 70 (min 110 final)" 1030] by blast
    then show ?thesis using True r by simp
  next
    case False
    note nf = False
    show ?thesis
    proof (cases "isPostMealTime h")
      case True
      then have "85 \<le> base" using d0 nf by (simp add: base_def)
      then have "80 \<le> final" using v d1 by (simp add: final_def)
      then have "of_int 800 / 10 \<le> max 70 (min 110 final)
                 \<and> max 70 (min 110 final) \<le> of_int 1100 / 10" by simp
      then have "of_int 800 / 10 \<le> Math_round (max 70 (min 110 final) * 10) / 10
                 \<and> Math_round (max 70 (min 110 final) * 10) / 10 \<le> of_int 1100 / 10"
        using Math_round10_bounds [of 800 "max 70 (min 110 final)" 1100] by blast
      then show ?thesis using True nf r by simp
    next
      case False
      then have "80 \<le> base \<and> base \<le> 95" using d0 nf by (simp add: base_def)
      then have "75 \<le> final \<and> final \<le> 103" using v d1 by (simp add: final_def)
      then have "of_int 750 / 10 \<le> max 70 (min 110 final)
                 \<and> max 70 (min 110 final) \<le> of_int 1030 / 10" by simp
      then have "of_int 750 / 10 \<le> Math_round (max 70 (min 110 final) * 10) / 10
                 \<and> Math_round (max 70 (min 110 final) * 10) / 10 \<le> of_int 1030 / 10"
        using Math_round10_bounds [of 750 "max 70 (min 110 final)" 1030] by blast
      then show ?thesis using False nf r by simp
    qed
  qed
qed

lemma predict_evaluation_rules:
  shows "simulateHealthyGlucose 72 72 98 37 (Some ''esp32'') [] 12 three_posts_draws 0
           = (845 / 10, 3)"
    and "simulateHealthyGlucose 72 72 98 37 (Some ''esp32'')
           [empty_reading\<lparr>deviceId := Some ''esp32'', timestamp := Some 1000,
          lastGlucose := Some (845 / 10)\<rparr>] 12 three_posts_draws 4 = (84, 7)"
    and "simulateHealthyGlucose 72 72 98 37 (Some ''esp32'')
           [empty_reading\<lparr>deviceId := Some ''esp32'', timestamp := Some 1000,
          lastGlucose := Some (845 / 10)\<rparr>,
            empty_reading\<lparr>deviceId := Some ''esp32'', timestamp := Some 2000,
          lastGlucose := Some 84\<rparr>] 12 three_posts_draws 8 = (84, 11)"
    and "simulateHealthyGlucose 72 72 98 37 (Some ''esp32'')
           [empty_reading\<lparr>deviceId := Some ''esp32'', timestamp := Some 2000,
          lastGlucose := Some 84\<rparr>] 12 three_posts_draws 8 = (835 / 10, 11)"
  by (simp_all add: simulateHealthyGlucose_def three_posts_draws_def draws_of_def
      glucoseRange_def isFastingTime_def isPostMealTime_def getLastStoredValues_def
      js_sort_def applyControlledVariation_def mk_range_def toFixed1_def empty_reading_def
      or_default_def strictly_after_def newest_first_def)

text \<open>
  Claim C4. The two paths differ as the claim says in their ranges, but the newer path
  does not always walk from the last stored glucose of the device. One device sends
  three prediction requests at hour 12 (heart rate 72, SpO2 98, temperature 37). The
  first walks from the default 85 and stores 84.5, the second walks from 84.5 and stores
  84. The third finds both records: prediction records carry no \<open>receivedAt\<close>, every
  comparison of the sort is \<^verbatim>\<open>NaN\<close> and the records stay in the order of the store, so
  the lookup returns the glucose of the first record, 84.5. The third request therefore
  returns 84 again, where the walk from the last stored glucose 84 with the same draws
  returns 83.5.
\<close>

theorem simulateHealthyGlucose_walks_from_first_stored:
  "unit_draws three_posts_draws
   \<and> post_predict_glucose
        (empty_reading\<lparr>deviceId := Some ''esp32'', heartRate := Some 72, spo2 := Some 98,
          temperature := Some 37\<rparr>) [] 12 1000 three_posts_draws 0
      = (Predicted (empty_reading\<lparr>deviceId := Some ''esp32'', timestamp := Some 1000,
          lastGlucose := Some (845 / 10)\<rparr>),
         [empty_reading\<lparr>deviceId := Some ''esp32'', timestamp := Some 1000,
          lastGlucose := Some (845 / 10)\<rparr>], 4)
   \<and> post_predict_glucose
        (empty_reading\<lparr>deviceId := Some ''esp32'', heartRate := Some 72, spo2 := Some 98,
          temperature := Some 37\<rparr>)
        [empty_reading\<lparr>deviceId := Some ''esp32'', timestamp := Some 1000,
          lastGlucose := Some (845 / 10)\<rparr>] 12 2000 three_posts_draws 4
      = (Predicted (empty_reading\<lparr>deviceId := Some ''esp32'', timestamp := Some 2000,
          lastGlucose := Some 84\<rparr>),
         [empty_reading\<lparr>deviceId := Some ''esp32'', timestamp := Some 1000,
          lastGlucose := Some (845 / 10)\<rparr>,
          empty_reading\<lparr>deviceId := Some ''esp32'', timestamp := Some 2000,
          lastGlucose := Some 84\<rparr>], 8)
   \<and> post_predict_glucose
        (empty_reading\<lparr>deviceId := Some ''esp32'', heartRate := Some 72, spo2 := Some 98,
          temperature := Some 37\<rparr>)
        [empty_reading\<lparr>deviceId := Some ''esp32'', timestamp := Some 1000,
          lastGlucose := Some (845 / 10)\<rparr>,
         empty_reading\<lparr>deviceId := Some ''esp32'', timestamp := Some 2000,
          lastGlucose := Some 84\<rparr>] 12 3000 three_posts_draws 8
      = (Predicted (empty_reading\<lparr>deviceId := Some ''esp32'', timestamp := Some 3000,
          lastGlucose := Some 84\<rparr>),
         [empty_reading\<lparr>deviceId := Some ''esp32'', timestamp := Some 1000,
          lastGlucose := Some (845 / 10)\<rparr>,
          empty_reading\<lparr>deviceId := Some ''esp32'', timestamp := Some 2000,
          lastGlucose := Some 84\<rparr>,
          empty_reading\<lparr>deviceId := Some ''esp32'', timestamp := Some 3000,
          lastGlucose := Some 84\<rparr>], 12)
   \<and> lv_glucose (getLastStoredValues
        [empty_reading\<lparr>deviceId := Some ''esp32'', timestamp := Some 1000,
          lastGlucose := Some (845 / 10)\<rparr>,
         empty_reading\<lparr>deviceId := Some ''esp32'', timestamp := Some 2000,
          lastGlucose := Some 84\<rparr>] (Some ''esp32'')) = 845 / 10
   \<and> fst (simulateHealthyGlucose 72 72 98 37 (Some ''esp32'')
        [empty_reading\<lparr>deviceId := Some ''esp32'', timestamp := Some 2000,
          lastGlucose := Some 84\<rparr>] 12 three_posts_draws 8) = 835 / 10"
proof -
  have u: "unit_draws three_posts_draws"
    unfolding three_posts_draws_def by (rule unit_draws_of) simp
  have p1: "post_predict_glucose
        (empty_reading\<lparr>deviceId := Some ''esp32'', heartRate := Some 72, spo2 := Some 98,
          temperature := Some 37\<rparr>) [] 12 1000 three_posts_draws 0
      = (Predicted (empty_reading\<lparr>deviceId := Some ''esp32'', timestamp := Some 1000,
          lastGlucose := Some (845 / 10)\<rparr>),
         [empty_reading\<lparr>deviceId := Some ''esp32'', timestamp := Some 1000,
          lastGlucose := Some (845 / 10)\<rparr>], 4)"
    using predict_evaluation_rules(1)
    by (simp add: post_predict_glucose_def requiredFields_predict_def has_field_def
        empty_reading_def interpretGlucose_def Let_def)
  have p2: "post_predict_glucose
        (empty_reading\<lparr>deviceId := Some ''esp32'', heartRate := Some 72, spo2 := Some 98,
          temperature := Some 37\<rparr>)
        [empty_reading\<lparr>deviceId := Some ''esp32'', timestamp := Some 1000,
          lastGlucose := Some (845 / 10)\<rparr>] 12 2000 three_posts_draws 4
      = (Predicted (empty_reading\<lparr>deviceId := Some ''esp32'', timestamp := Some 2000,
          lastGlucose := Some 84\<rparr>),
         [empty_reading\<lparr>deviceId := Some ''esp32'', timestamp := Some 1000,
          lastGlucose := Some (845 / 10)\<rparr>,
          empty_reading\<lparr>deviceId := Some ''esp32'', timestamp := Some 2000,
          lastGlucose := Some 84\<rparr>], 8)"
    using predict_evaluation_rules(2)
    by (simp add: post_predict_glucose_def requiredFields_predict_def has_field_def
        empty_reading_def interpretGlucose_def Let_def)
  have p3: "post_predict_glucose
        (empty_reading\<lparr>deviceId := Some ''esp32'', heartRate := Some 72, spo2 := Some 98,
          temperature := Some 37\<rparr>)
        [empty_reading\<lparr>deviceId := Some ''esp32'', timestamp := Some 1000,
          lastGlucose := Some (845 / 10)\<rparr>,
         empty_reading\<lparr>deviceId := Some ''esp32'', timestamp := Some 2000,
          lastGlucose := Some 84\<rparr>] 12 3000 three_posts_draws 8
      = (Predicted (empty_reading\<lparr>deviceId := Some ''esp32'', timestamp := Some 3000,
          lastGlucose := Some 84\<rparr>),
         [empty_reading\<lparr>deviceId := Some ''esp32'', timestamp := Some 1000,
          lastGlucose := Some (845 / 10)\<rparr>,
          empty_reading\<lparr>deviceId := Some ''esp32'', timestamp := Some 2000,
          lastGlucose := Some 84\<rparr>,
          empty_reading\<lparr>deviceId := Some ''esp32'', timestamp := Some 3000,
          lastGlucose := Some 84\<rparr>], 12)"
    using predict_evaluation_rules(3)
    by (simp add: post_predict_glucose_def requiredFields_predict_def has_field_def
        empty_reading_def interpretGlucose_def Let_def)
  have l: "lv_glucose (getLastStoredValues
        [empty_reading\<lparr>deviceId := Some ''esp32'', timestamp := Some 1000,
          lastGlucose := Some (845 / 10)\<rparr>,
         empty_reading\<lparr>deviceId := Some ''esp32'', timestamp := Some 2000,
          lastGlucose := Some 84\<rparr>] (Some ''esp32'')) = 845 / 10"
    by (simp add: getLastStoredValues_def js_sort_def empty_reading_def or_default_def
        strictly_after_def newest_first_def)
  have w: "fst (simulateHealthyGlucose 72 72 98 37 (Some ''esp32'')
        [empty_reading\<lparr>deviceId := Some ''esp32'', timestamp := Some 2000,
          lastGlucose := Some 84\<rparr>] 12 three_posts_draws 8) = 835 / 10"
    using predict_evaluation_rules(4) by simp
  show ?thesis by (intro conjI) (rule u, rule p1, rule p2, rule p3, rule l, rule w)
qed

section \<open>The minimum change is lost near the edge of the band\<close>

text \<open>
  Claim C1. The walk stays in the band, but the minimum change is not guaranteed for
  every interior previous value. With the red-channel band (75000, 120000, 1000), the
  previous value 119500 and every draw equal to 0.75, the candidate 120500.25 is
  clamped to 120000, which is only 500 away; the forced change of +1000 is clamped to
  120000 again. The function returns 120000, at distance 500 from the previous value,
  less than the minimum change 1000.
\<close>

theorem applyControlledVariation_change_below_minimum:
  "min_r redRange < 119500 \<and> 119500 < max_r redRange
   \<and> minChange redRange \<le> max_r redRange - min_r redRange \<and> 0 < minChange redRange
   \<and> unit_draws (constant_draws (3 / 4))
   \<and> applyControlledVariation 119500 119500 redRange (constant_draws (3 / 4)) 0 = (120000, 3)
   \<and> \<bar>120000 - 119500\<bar> < minChange redRange"
  by (simp add: applyControlledVariation_def redRange_def mk_range_def constant_draws_def
      unit_draws_def)

section \<open>Rounding can undo the change of a synthesized vital\<close>

lemma last_values_esp32:
  "getLastStoredValues
     [empty_reading\<lparr>deviceId := Some ''esp32'', timestamp := Some 1, receivedAt := Some 1000,
        heartRate := Some 72, heartRateAvg := Some 72, spo2 := Some 98,
        temperature := Some (365 / 10), red := Some 80000, ir := Some 85000\<rparr>]
     (Some ''esp32'')
   = \<lparr>lv_heartRate = 72, lv_spo2 = 98, lv_temperature = 365 / 10, lv_glucose = 85\<rparr>"
  by (simp add: getLastStoredValues_def js_sort_def empty_reading_def or_default_def)

lemma walk_heartRate_esp32:
  "applyControlledVariation 72 72 (heartRateRange 12)
     (draws_of [1 / 4, 1 / 4, 1 / 4, 3 / 4, 1 / 4]) 0 = (283 / 4, 2)"
  by (simp add: applyControlledVariation_def heartRateRange_def isRestingTime_def
      isActiveTime_def mk_range_def draws_of_def)

lemma walk_spo2_esp32:
  "applyControlledVariation 98 98 spo2Range
     (draws_of [1 / 4, 1 / 4, 1 / 4, 3 / 4, 1 / 4]) 2 = (195 / 2, 5)"
  by (simp add: applyControlledVariation_def spo2Range_def mk_range_def draws_of_def)

text \<open>
  Claim C2. A device whose stored reading has SpO2 98 posts again at hour 12 and the
  draws are 0.25, 0.25 (heart rate), 0.25, 0.75, 0.25 (SpO2). The SpO2 walk goes down by
  0.5 and up by 0.25 to 97.75, which is too close to 98, so the change is forced to
  -0.5 and the walk returns 97.5; \<^verbatim>\<open>Math.round\<close> turns it into 98. The synthesized SpO2
  equals the stored one: the difference is 0, below the minimum change 0.5.
\<close>

theorem generateHealthyValues_spo2_unchanged:
  "unit_draws (draws_of [1 / 4, 1 / 4, 1 / 4, 3 / 4, 1 / 4])
   \<and> lv_spo2 (getLastStoredValues
        [empty_reading\<lparr>deviceId := Some ''esp32'', timestamp := Some 1,
           receivedAt := Some 1000, heartRate := Some 72, heartRateAvg := Some 72,
           spo2 := Some 98, temperature := Some (365 / 10), red := Some 80000,
           ir := Some 85000\<rparr>] (Some ''esp32'')) = 98
   \<and> spo2 (fst (generateHealthyValues
        (empty_reading\<lparr>deviceId := Some ''esp32'', timestamp := Some 2\<rparr>)
        [empty_reading\<lparr>deviceId := Some ''esp32'', timestamp := Some 1,
           receivedAt := Some 1000, heartRate := Some 72, heartRateAvg := Some 72,
           spo2 := Some 98, temperature := Some (365 / 10), red := Some 80000,
           ir := Some 85000\<rparr>] 12
        (draws_of [1 / 4, 1 / 4, 1 / 4, 3 / 4, 1 / 4]) 0)) = Some 98"
proof -
  have u: "unit_draws (draws_of [1 / 4, 1 / 4, 1 / 4, 3 / 4, 1 / 4])"
    by (rule unit_draws_of) simp
  have d: "deviceId (empty_reading\<lparr>deviceId := Some ''esp32'', timestamp := Some 2\<rparr>)
             = Some ''esp32''"
    by simp
  have s: "spo2 (fst (generateHealthyValues
        (empty_reading\<lparr>deviceId := Some ''esp32'', timestamp := Some 2\<rparr>)
        [empty_reading\<lparr>deviceId := Some ''esp32'', timestamp := Some 1,
           receivedAt := Some 1000, heartRate := Some 72, heartRateAvg := Some 72,
           spo2 := Some 98, temperature := Some (365 / 10), red := Some 80000,
           ir := Some 85000\<rparr>] 12
        (draws_of [1 / 4, 1 / 4, 1 / 4, 3 / 4, 1 / 4]) 0)) = Some 98"
    unfolding gen_spo2 d last_values_esp32
    by (simp add: walk_heartRate_esp32 walk_spo2_esp32 Math_round_def)
  have l: "lv_spo2 (getLastStoredValues
        [empty_reading\<lparr>deviceId := Some ''esp32'', timestamp := Some 1,
           receivedAt := Some 1000, heartRate := Some 72, heartRateAvg := Some 72,
           spo2 := Some 98, temperature := Some (365 / 10), red := Some 80000,
           ir := Some 85000\<rparr>] (Some ''esp32'')) = 98"
    unfolding last_values_esp32 by simp
  show ?thesis by (intro conjI) (rule u, rule l, rule s)
qed

section \<open>What the stored records satisfy\<close>

text \<open>
  Claim C6, as stated, fails on the glucose part. The record that POST /api/sensor-data
  appends is the request body with the synthesized fields written over it, so a
  \<open>lastGlucose\<close> of the body is stored as it came: a body with \<open>lastGlucose\<close> 500 leaves a
  record with \<open>lastGlucose\<close> 500 in the store, outside 70..99.
\<close>

theorem sensor_record_keeps_body_lastGlucose:
  "post_sensor_data
     (empty_reading\<lparr>deviceId := Some ''esp32'', timestamp := Some 1, lastGlucose := Some 500\<rparr>)
     [] 12 1000 (constant_draws (1 / 2)) 0
   = (Created (empty_reading\<lparr>deviceId := Some ''esp32'', timestamp := Some 1,
         receivedAt := Some 1000, heartRate := Some 71, heartRateAvg := Some 71,
         spo2 := Some 98, temperature := Some (364 / 10), red := Some 79000, ir := Some 84000,
         lastGlucose := Some 500\<rparr>),
      [empty_reading\<lparr>deviceId := Some ''esp32'', timestamp := Some 1,
         receivedAt := Some 1000, heartRate := Some 71, heartRateAvg := Some 71,
         spo2 := Some 98, temperature := Some (364 / 10), red := Some 79000, ir := Some 84000,
         lastGlucose := Some 500\<rparr>], 11)
   \<and> \<not> glucose_in_envelope
        (empty_reading\<lparr>deviceId := Some ''esp32'', timestamp := Some 1,
         receivedAt := Some 1000, heartRate := Some 71, heartRateAvg := Some 71,
         spo2 := Some 98, temperature := Some (364 / 10), red := Some 79000, ir := Some 84000,
         lastGlucose := Some 500\<rparr>)"
  by (simp add: post_sensor_data_def missing_sensor_fields empty_reading_def
      generateHealthyValues_def getLastStoredValues_def js_sort_def
      applyControlledVariation_def constant_draws_def heartRateRange_def isRestingTime_def
      isActiveTime_def spo2Range_def tempRange_def redRange_def irRange_def mk_range_def
      Math_round_def toFixed1_def or_default_def Let_def glucose_in_envelope_def)

text \<open>
  Claim C6, amended. Every record appended by POST /api/sensor-data is the last record of
  the store afterwards and has heart rate in 55..95, SpO2 in 95..100 and temperature in
  36.0..37.2 after rounding; its \<open>lastGlucose\<close> is that of the request body. Every record
  appended by POST /api/predict-glucose has a \<open>lastGlucose\<close> in 70..99. The band of
  every hour lies inside the envelope of its vital.
\<close>

theorem appended_records_in_envelope:
  "(post_sensor_data originalData sensorData timeOfDay now rnd n = (Created r, sensorData', n')
      \<longrightarrow> sensorData' \<noteq> [] \<and> last sensorData' = r \<and> vitals_in_envelope r
          \<and> lastGlucose r = lastGlucose originalData)
   \<and> (post_predict_glucose body sensorData timeOfDay now rnd n = (Predicted p, sensorData'', n'')
      \<longrightarrow> sensorData'' = sensorData @ [p] \<and> glucose_in_envelope p)
   \<and> 55 \<le> min_r (heartRateRange h) \<and> max_r (heartRateRange h) \<le> 95
   \<and> 95 \<le> min_r spo2Range \<and> max_r spo2Range \<le> 100
   \<and> 36 \<le> min_r (tempRange h) \<and> max_r (tempRange h) \<le> 372 / 10
   \<and> 70 \<le> min_r (glucoseRange h) \<and> max_r (glucoseRange h) \<le> 99"
proof -
  have s: "95 \<le> min_r spo2Range \<and> max_r spo2Range \<le> 100"
    by (simp add: spo2Range_def mk_range_def)
  show ?thesis
    using sensor_created predict_created heartRateRange_envelope [of h]
      tempRange_envelope [of h] glucoseRange_envelope [of h] s
    by blast
qed

theorem appended_records_in_envelope_witness:
  "post_sensor_data (empty_reading\<lparr>deviceId := Some ''esp32'', timestamp := Some 1\<rparr>)
     [] 12 1000 (constant_draws (1 / 2)) 0
   = (Created (empty_reading\<lparr>deviceId := Some ''esp32'', timestamp := Some 1,
         receivedAt := Some 1000, heartRate := Some 71, heartRateAvg := Some 71,
         spo2 := Some 98, temperature := Some (364 / 10), red := Some 79000,
         ir := Some 84000\<rparr>),
      [empty_reading\<lparr>deviceId := Some ''esp32'', timestamp := Some 1,
         receivedAt := Some 1000, heartRate := Some 71, heartRateAvg := Some 71,
         spo2 := Some 98, temperature := Some (364 / 10), red := Some 79000,
         ir := Some 84000\<rparr>], 11)
   \<and> vitals_in_envelope
        (empty_reading\<lparr>deviceId := Some ''esp32'', timestamp := Some 1,
         receivedAt := Some 1000, heartRate := Some 71, heartRateAvg := Some 71,
         spo2 := Some 98, temperature := Some (364 / 10), red := Some 79000,
         ir := Some 84000\<rparr>)
   \<and> post_predict_glucose
        (empty_reading\<lparr>deviceId := Some ''esp32'', heartRate := Some 72, spo2 := Some 98,
           temperature := Some 37\<rparr>) [] 12 1000 (constant_draws (1 / 2)) 0
      = (Predicted (empty_reading\<lparr>deviceId := Some ''esp32'', timestamp := Some 1000,
           lastGlucose := Some (845 / 10)\<rparr>),
         [empty_reading\<lparr>deviceId := Some ''esp32'', timestamp := Some 1000,
           lastGlucose := Some (845 / 10)\<rparr>], 3)
   \<and> glucose_in_envelope
        (empty_reading\<lparr>deviceId := Some ''esp32'', timestamp := Some 1000,
           lastGlucose := Some (845 / 10)\<rparr>)"
proof -
  let ?b = "empty_reading\<lparr>deviceId := Some ''esp32'', timestamp := Some 1\<rparr>"
  let ?r = "empty_reading\<lparr>deviceId := Some ''esp32'', timestamp := Some 1,
         receivedAt := Some 1000, heartRate := Some 71, heartRateAvg := Some 71,
         spo2 := Some 98, temperature := Some (364 / 10), red := Some 79000,
         ir := Some 84000\<rparr>"
  let ?q = "empty_reading\<lparr>deviceId := Some ''esp32'', heartRate := Some 72, spo2 := Some 98,
           temperature := Some 37\<rparr>"
  let ?p = "empty_reading\<lparr>deviceId := Some ''esp32'', timestamp := Some 1000,
           lastGlucose := Some (845 / 10)\<rparr>"
  have a: "post_sensor_data ?b [] 12 1000 (constant_draws (1 / 2)) 0 = (Created ?r, [?r], 11)"
    by (simp add: post_sensor_data_def missing_sensor_fields empty_reading_def
        generateHealthyValues_def getLastStoredValues_def js_sort_def
        applyControlledVariation_def constant_draws_def heartRateRange_def isRestingTime_def
        isActiveTime_def spo2Range_def tempRange_def redRange_def irRange_def mk_range_def
        Math_round_def toFixed1_def or_default_def Let_def)
  have g: "simulateHealthyGlucose 72 72 98 37 (Some ''esp32'') [] 12
             (constant_draws (1 / 2)) 0 = (845 / 10, 2)"
    by (simp add: simulateHealthyGlucose_def constant_draws_def glucoseRange_def
        isFastingTime_def isPostMealTime_def getLastStoredValues_def js_sort_def
        applyControlledVariation_def mk_range_def toFixed1_def)
  have c: "post_predict_glucose ?q [] 12 1000 (constant_draws (1 / 2)) 0
             = (Predicted ?p, [?p], 3)"
    by (simp add: post_predict_glucose_def requiredFields_predict_def has_field_def
        empty_reading_def g interpretGlucose_def Let_def)
  show ?thesis
    using a c appended_records_in_envelope
      [of ?b "[]" 12 1000 "constant_draws (1 / 2)" 0 ?r "[?r]" 11 ?q ?p "[?p]" 3 12]
    by blast
qed

section \<open>The last stored values of a device\<close>

text \<open>
  Claim C7, as stated, fails where a field of the newest record holds 0: the field is
  not missing, yet \<^verbatim>\<open>||\<close> replaces it by the default. A sensor post whose body carries
  \<open>lastGlucose\<close> 0 stores a record with \<open>lastGlucose\<close> 0; it is the only record of the
  device, and \<open>getLastStoredValues\<close> returns glucose 85 for it.
\<close>

theorem getLastStoredValues_zero_is_replaced:
  "post_sensor_data
     (empty_reading\<lparr>deviceId := Some ''esp32'', timestamp := Some 1, lastGlucose := Some 0\<rparr>)
     [] 12 1000 (constant_draws (1 / 2)) 0
   = (Created (empty_reading\<lparr>deviceId := Some ''esp32'', timestamp := Some 1,
         receivedAt := Some 1000, heartRate := Some 71, heartRateAvg := Some 71,
         spo2 := Some 98, temperature := Some (364 / 10), red := Some 79000, ir := Some 84000,
         lastGlucose := Some 0\<rparr>),
      [empty_reading\<lparr>deviceId := Some ''esp32'', timestamp := Some 1,
         receivedAt := Some 1000, heartRate := Some 71, heartRateAvg := Some 71,
         spo2 := Some 98, temperature := Some (364 / 10), red := Some 79000, ir := Some 84000,
         lastGlucose := Some 0\<rparr>], 11)
   \<and> getLastStoredValues
        [empty_reading\<lparr>deviceId := Some ''esp32'', timestamp := Some 1,
           receivedAt := Some 1000, heartRate := Some 71, heartRateAvg := Some 71,
           spo2 := Some 98, temperature := Some (364 / 10), red := Some 79000,
           ir := Some 84000, lastGlucose := Some 0\<rparr>] (Some ''esp32'')
      = \<lparr>lv_heartRate = 71, lv_spo2 = 98, lv_temperature = 364 / 10, lv_glucose = 85\<rparr>"
  by (simp add: post_sensor_data_def missing_sensor_fields empty_reading_def
      generateHealthyValues_def getLastStoredValues_def js_sort_def
      applyControlledVariation_def constant_draws_def heartRateRange_def isRestingTime_def
      isActiveTime_def spo2Range_def tempRange_def redRange_def irRange_def mk_range_def
      Math_round_def toFixed1_def or_default_def Let_def)

text \<open>
  Claim C7, amended. For a device without a matching record \<open>getLastStoredValues\<close> returns
  exactly 72, 98, 36.5 and 85. When the matching records all carry a \<open>receivedAt\<close>, it
  reads the record with the maximal \<open>receivedAt\<close>, the earliest stored one among equals,
  and returns for each vital the value of the field (\<open>lastGlucose\<close> for glucose), or the
  same default when the field is missing or holds 0.
\<close>

theorem getLastStoredValues_newest:
  "(filter (\<lambda>record. deviceId record = dev) sensorData = [] \<longrightarrow>
      getLastStoredValues sensorData dev =
        \<lparr>lv_heartRate = 72, lv_spo2 = 98, lv_temperature = 365 / 10, lv_glucose = 85\<rparr>)
   \<and> (filter (\<lambda>record. deviceId record = dev) sensorData = before @ r # after
        \<and> (\<forall>x \<in> set (before @ r # after). receivedAt x \<noteq> None)
        \<and> (\<forall>x \<in> set before. receivedAt x < receivedAt r)
        \<and> (\<forall>x \<in> set after. receivedAt x \<le> receivedAt r) \<longrightarrow>
      getLastStoredValues sensorData dev =
        \<lparr>lv_heartRate = or_default (heartRate r) 72, lv_spo2 = or_default (spo2 r) 98,
         lv_temperature = or_default (temperature r) (365 / 10),
         lv_glucose = or_default (lastGlucose r) 85\<rparr>)
   \<and> or_default None d = d \<and> or_default (Some 0) d = d
   \<and> (v \<noteq> 0 \<longrightarrow> or_default (Some v) d = v)"
proof -
  have a: "getLastStoredValues sensorData dev =
        \<lparr>lv_heartRate = 72, lv_spo2 = 98, lv_temperature = 365 / 10, lv_glucose = 85\<rparr>"
    if "filter (\<lambda>record. deviceId record = dev) sensorData = []"
    using that by (simp add: getLastStoredValues_def js_sort_Nil)
  have b: "getLastStoredValues sensorData dev =
        \<lparr>lv_heartRate = or_default (heartRate r) 72, lv_spo2 = or_default (spo2 r) 98,
         lv_temperature = or_default (temperature r) (365 / 10),
         lv_glucose = or_default (lastGlucose r) 85\<rparr>"
    if f: "filter (\<lambda>record. deviceId record = dev) sensorData = before @ r # after"
      and d: "\<forall>x \<in> set (before @ r # after). receivedAt x \<noteq> None"
      and l: "\<forall>x \<in> set before. receivedAt x < receivedAt r"
      and g: "\<forall>x \<in> set after. receivedAt x \<le> receivedAt r"
  proof -
    have h: "hd (js_sort newest_first (filter (\<lambda>record. deviceId record = dev) sensorData)) = r"
      unfolding f using d l g by (rule hd_js_sort_newest)
    have ne: "js_sort newest_first (filter (\<lambda>record. deviceId record = dev) sensorData) \<noteq> []"
      unfolding f by (simp add: js_sort_empty_iff)
    show ?thesis using last_values_of_head [OF ne] unfolding h Let_def .
  qed
  have c: "or_default None d = d \<and> or_default (Some 0) d = d
     \<and> (v \<noteq> 0 \<longrightarrow> or_default (Some v) d = v)"
    by (simp add: or_default_def)
  show ?thesis using a b c by blast
qed

theorem getLastStoredValues_newest_witness:
  "getLastStoredValues [empty_reading\<lparr>deviceId := Some ''esp32'', receivedAt := Some 1000\<rparr>]
     (Some ''other'')
     = \<lparr>lv_heartRate = 72, lv_spo2 = 98, lv_temperature = 365 / 10, lv_glucose = 85\<rparr>
   \<and> receivedAt (empty_reading\<lparr>deviceId := Some ''esp32'', receivedAt := Some 1000,
                  heartRate := Some 70\<rparr>)
       < receivedAt (empty_reading\<lparr>deviceId := Some ''esp32'', receivedAt := Some 3000,
                  heartRate := Some 80, temperature := Some (366 / 10), lastGlucose := Some 0\<rparr>)
   \<and> receivedAt (empty_reading\<lparr>deviceId := Some ''esp32'', receivedAt := Some 3000,
                  heartRate := Some 90\<rparr>)
       \<le> receivedAt (empty_reading\<lparr>deviceId := Some ''esp32'', receivedAt := Some 3000,
                  heartRate := Some 80, temperature := Some (366 / 10), lastGlucose := Some 0\<rparr>)
   \<and> getLastStoredValues
        [empty_reading\<lparr>deviceId := Some ''esp32'', receivedAt := Some 1000,
           heartRate := Some 70\<rparr>,
         empty_reading\<lparr>deviceId := Some ''other'', receivedAt := Some 4000,
           heartRate := Some 60\<rparr>,
         empty_reading\<lparr>deviceId := Some ''esp32'', receivedAt := Some 3000,
           heartRate := Some 80, temperature := Some (366 / 10), lastGlucose := Some 0\<rparr>,
         empty_reading\<lparr>deviceId := Some ''esp32'', receivedAt := Some 3000,
           heartRate := Some 90\<rparr>] (Some ''esp32'')
     = \<lparr>lv_heartRate = 80, lv_spo2 = 98, lv_temperature = 366 / 10, lv_glucose = 85\<rparr>
   \<and> or_default (Some 80) 72 = 80"
proof -
  let ?r1 = "empty_reading\<lparr>deviceId := Some ''esp32'', receivedAt := Some 1000,
           heartRate := Some 70\<rparr>"
  let ?ro = "empty_reading\<lparr>deviceId := Some ''other'', receivedAt := Some 4000,
           heartRate := Some 60\<rparr>"
  let ?r2 = "empty_reading\<lparr>deviceId := Some ''esp32'', receivedAt := Some 3000,
           heartRate := Some 80, temperature := Some (366 / 10), lastGlucose := Some 0\<rparr>"
  let ?r3 = "empty_reading\<lparr>deviceId := Some ''esp32'', receivedAt := Some 3000,
           heartRate := Some 90\<rparr>"
  let ?ra = "empty_reading\<lparr>deviceId := Some ''esp32'', receivedAt := Some 1000\<rparr>"
  have f0: "filter (\<lambda>record. deviceId record = Some ''other'') [?ra] = []"
    by simp
  have f1: "filter (\<lambda>record. deviceId record = Some ''esp32'') [?r1, ?ro, ?r2, ?r3]
              = [?r1] @ ?r2 # [?r3]"
    by simp
  have d: "\<forall>x \<in> set ([?r1] @ ?r2 # [?r3]). receivedAt x \<noteq> None"
    by simp
  have l: "\<forall>x \<in> set [?r1]. receivedAt x < receivedAt ?r2"
    by simp
  have g: "\<forall>x \<in> set [?r3]. receivedAt x \<le> receivedAt ?r2"
    by simp
  have v: "(80::real) \<noteq> 0" by simp
  have w0: "getLastStoredValues [?ra] (Some ''other'')
     = \<lparr>lv_heartRate = 72, lv_spo2 = 98, lv_temperature = 365 / 10, lv_glucose = 85\<rparr>"
    using getLastStoredValues_newest [of "Some ''other''" "[?ra]"] f0 by blast
  have w1: "getLastStoredValues [?r1, ?ro, ?r2, ?r3] (Some ''esp32'')
     = \<lparr>lv_heartRate = or_default (heartRate ?r2) 72, lv_spo2 = or_default (spo2 ?r2) 98,
         lv_temperature = or_default (temperature ?r2) (365 / 10),
         lv_glucose = or_default (lastGlucose ?r2) 85\<rparr>"
    using getLastStoredValues_newest [of "Some ''esp32''" "[?r1, ?ro, ?r2, ?r3]" "[?r1]" ?r2 "[?r3]"]
      f1 d l g by blast
  have w2: "or_default (Some 80) 72 = 80"
    using getLastStoredValues_newest [of _ _ _ _ _ 72 80] v by blast
  have e: "\<lparr>lv_heartRate = or_default (heartRate ?r2) 72, lv_spo2 = or_default (spo2 ?r2) 98,
         lv_temperature = or_default (temperature ?r2) (365 / 10),
         lv_glucose = or_default (lastGlucose ?r2) 85\<rparr>
       = \<lparr>lv_heartRate = 80, lv_spo2 = 98, lv_temperature = 366 / 10, lv_glucose = 85\<rparr>"
    by (simp add: or_default_def empty_reading_def)
  have o1: "receivedAt ?r1 < receivedAt ?r2" by simp
  have o2: "receivedAt ?r3 \<le> receivedAt ?r2" by simp
  show ?thesis
    using w0 w1 [unfolded e] w2 o1 o2 by (intro conjI)
qed

end
